theory Spec2Isabelle
  imports Complex_Main
begin

section \<open>The SEVIRI native format reader (satpy/readers/seviri\_l1b\_native.py)\<close>

text \<open>
  A shallow embedding of the reader's geometry and calibration logic.

  Conventions of the embedding:
  \<^item> Python's unbounded \<open>int\<close> is \<^typ>\<open>int\<close>. Python's \<open>float\<close> is idealised as \<^typ>\<open>real\<close>:
    every arithmetic expression keeps the operations and their order as the source
    writes them, but rounding, overflow and infinities are not modelled.
  \<^item> The not-a-number marker of a raster is \<open>None\<close>; a valid sample is \<open>Some v\<close>.
  \<^item> A raise is a value \<open>Inl e\<close> of \<open>error + 'a\<close>.
  \<^item> The header and the trailer are records holding the decoded fields the reader
    looks up; the \<open>int(...)\<close> conversions of the header's text fields are taken as done.
\<close>

subsection \<open>Constants and tables imported from seviri\_base\<close>

text \<open>
  Modelled from the spec: the constants \<open>VISIR_NUM_COLUMNS\<close>, \<open>VISIR_NUM_LINES\<close>,
  \<open>HRV_NUM_COLUMNS\<close> and \<open>HRV_NUM_LINES\<close> are imported from seviri\_base, which is not part
  of the sources. The spec gives 3712 full-disk columns and a north bound of 3712 at the
  full-disk line count for the standard grid, and a high-resolution grid sampled at three
  times the standard grid, that is 11136 lines and columns.
\<close>

definition VISIR_NUM_COLUMNS :: int where
  "VISIR_NUM_COLUMNS = 3712"

definition VISIR_NUM_LINES :: int where
  "VISIR_NUM_LINES = 3712"

definition HRV_NUM_COLUMNS :: int where
  "HRV_NUM_COLUMNS = 11136"

definition HRV_NUM_LINES :: int where
  "HRV_NUM_LINES = 11136"

text \<open>
  The tables of seviri\_base are parameters of the model: the channel-name table (a dict
  from 1..12 to names, kept in insertion order), the list of visible-band channels, the
  platform-number table, the solar irradiance \<open>CALIB[platform][channel]["F"]\<close>, and the two
  sample conversions \<open>f\<close> and \<open>g\<close> of the calibration engine.
\<close>

record seviri_base =
  CHANNEL_NAMES :: "(nat \<times> string) list"
  VIS_CHANNELS :: "string list"
  SATNUM :: "int \<Rightarrow> string option"
  CALIB_F :: "int \<Rightarrow> string \<Rightarrow> real option"
  reflectance_of :: "real \<Rightarrow> real \<Rightarrow> real"
  brightness_temperature_of :: "real \<Rightarrow> string \<Rightarrow> int \<Rightarrow> real"

datatype error =
  NotImplementedError | KeyError | ValueError | IndexError | UnboundLocalError

subsection \<open>Header, trailer and metadata\<close>

record reference_grid =
  GridOrigin :: int
  ColumnDirGridStep :: real
  LineDirGridStep :: real

record header =
  SatelliteId :: int
  TypeOfEarthModel :: int
  EquatorialRadius :: real
  NorthPolarRadius :: real
  SouthPolarRadius :: real
  LongitudeOfSSP :: real
  ReferenceGridHRV :: reference_grid
  ReferenceGridVIS_IR :: reference_grid
  PlannedChanProcessing :: "int list"
  CalSlope :: "real list"
  CalOffset :: "real list"
  GSICSCalCoeff :: "real list"
  GSICSOffsetCount :: "real list"
  SelectedBandIDs :: string
  NorthLineSelectedRectangle :: int
  EastColumnSelectedRectangle :: int
  SouthLineSelectedRectangle :: int
  WestColumnSelectedRectangle :: int
  NumberColumnsVISIR :: int
  NumberColumnsHRV :: int
  NumberLinesVISIR :: int
  NumberLinesHRV :: int

record trailer =
  ReducedScan :: nat
  LowerSouthLineActual :: int
  LowerNorthLineActual :: int
  LowerEastColumnActual :: int
  LowerWestColumnActual :: int
  UpperSouthLineActual :: int
  UpperNorthLineActual :: int
  UpperEastColumnActual :: int
  UpperWestColumnActual :: int

record projection_parameters =
  proj_a :: real
  proj_b :: real
  proj_h :: real
  ssp_longitude :: real

record mda =
  available_channels :: "string \<Rightarrow> bool option"
  channel_list :: "string list"
  platform_name :: string
  projection :: projection_parameters
  is_full_disk :: bool
  number_of_lines :: int
  number_of_columns :: int
  hrv_number_of_lines :: int
  hrv_number_of_columns :: int

record dataset_id =
  name :: string
  calibration :: string

text \<open>The state of an opened file: what \<open>__init__\<close> stores on the handler.\<close>

record file_handler =
  fh_header :: header
  fh_mda :: mda
  fh_trailer :: trailer
  platform_id :: int
  calib_mode :: string
  fill_disk :: bool

subsection \<open>Reading the header\<close>

text \<open>
  \<open>get_available_channels\<close>: the loop over \<open>zip(range(12), chlist_str)\<close>; a channel index
  missing from the name table raises KeyError.
\<close>

fun available_loop ::
  "(nat \<times> string) list \<Rightarrow> (nat \<times> char) list \<Rightarrow> (string \<Rightarrow> bool option)
    \<Rightarrow> error + (string \<Rightarrow> bool option)" where
  "available_loop cn [] retv = Inr retv"
| "available_loop cn ((idx, c) # rest) retv =
     (case map_of cn (idx + 1) of
        None \<Rightarrow> Inl KeyError
      | Some nm \<Rightarrow> available_loop cn rest (retv(nm \<mapsto> (c = CHR ''X''))))"

definition get_available_channels ::
  "seviri_base \<Rightarrow> header \<Rightarrow> error + (string \<Rightarrow> bool option)" where
  "get_available_channels env h =
     available_loop (CHANNEL_NAMES env) (zip [0..<12] (SelectedBandIDs h)) Map.empty"

text \<open>The comprehension \<open>[i for i in CHANNEL_NAMES.values() if available[i]]\<close>.\<close>

fun channel_list_of :: "(string \<Rightarrow> bool option) \<Rightarrow> string list \<Rightarrow> error + string list" where
  "channel_list_of av [] = Inr []"
| "channel_list_of av (i # rest) =
     (case av i of
        None \<Rightarrow> Inl KeyError
      | Some b \<Rightarrow>
          (case channel_list_of av rest of
             Inl e \<Rightarrow> Inl e
           | Inr l \<Rightarrow> Inr (if b then i # l else l)))"

text \<open>\<open>int(x / 2)\<close> on an integer \<open>x\<close>: true division, then truncation towards zero.\<close>

definition int_half :: "int \<Rightarrow> int" where
  "int_half x = (if 0 \<le> x then x div 2 else - ((- x) div 2))"

definition read_header :: "seviri_base \<Rightarrow> header \<Rightarrow> error + mda" where
  "read_header env h =
     (case get_available_channels env h of
        Inl e \<Rightarrow> Inl e
      | Inr av \<Rightarrow>
     (case channel_list_of av (map snd (CHANNEL_NAMES env)) of
        Inl e \<Rightarrow> Inl e
      | Inr chl \<Rightarrow>
     (case SATNUM env (SatelliteId h) of
        None \<Rightarrow> Inl KeyError
      | Some satnum \<Rightarrow>
     (let equator_radius = EquatorialRadius h * 1000;
          north_polar_radius = NorthPolarRadius h * 1000;
          south_polar_radius = SouthPolarRadius h * 1000;
          polar_radius = (north_polar_radius + south_polar_radius) * 0.5;
          ssp_lon = LongitudeOfSSP h;
          north = NorthLineSelectedRectangle h;
          east = EastColumnSelectedRectangle h;
          south = SouthLineSelectedRectangle h;
          west = WestColumnSelectedRectangle h;
          ncolumns = west - east + 1;
          nrows = north - south + 1;
          full = (if nrows < VISIR_NUM_LINES \<or> ncolumns < VISIR_NUM_COLUMNS
                  then False else True);
          modulo = ncolumns mod 4;
          padding = (if modulo > 0 then 4 - modulo else 0);
          cols_visir = ncolumns + padding;
          cols_hrv_hdr = NumberColumnsHRV h;
          cols_hrv = (if ncolumns < VISIR_NUM_COLUMNS then cols_hrv_hdr
                      else int_half cols_hrv_hdr)
      in Inr \<lparr>available_channels = av,
              channel_list = chl,
              platform_name = ''Meteosat-'' @ satnum,
              projection = \<lparr>proj_a = equator_radius, proj_b = polar_radius,
                            proj_h = 35785831, ssp_longitude = ssp_lon\<rparr>,
              is_full_disk = full,
              number_of_lines = NumberLinesVISIR h,
              number_of_columns = cols_visir,
              hrv_number_of_lines = NumberLinesHRV h,
              hrv_number_of_columns = cols_hrv\<rparr>))))"

text \<open>
  \<open>__init__\<close>: read the header, then the trailer (given here as decoded), and keep both
  with the two reader options. The platform id is set by \<open>_read_header\<close>.
\<close>

definition open_file ::
  "seviri_base \<Rightarrow> header \<Rightarrow> trailer \<Rightarrow> string \<Rightarrow> bool \<Rightarrow> error + file_handler" where
  "open_file env h t cmode fd =
     (case read_header env h of
        Inl e \<Rightarrow> Inl e
      | Inr m \<Rightarrow> Inr \<lparr>fh_header = h, fh_mda = m, fh_trailer = t,
                      platform_id = SatelliteId h, calib_mode = cmode, fill_disk = fd\<rparr>)"

subsection \<open>Region-of-interest detection\<close>

definition is_roi :: "file_handler \<Rightarrow> bool" where
  "is_roi fh =
     (let is_rapid_scan = (ReducedScan (fh_trailer fh) \<noteq> 0);
          nlines = number_of_lines (fh_mda fh);
          ncolumns = number_of_columns (fh_mda fh);
          north_bound = NorthLineSelectedRectangle (fh_header fh);
          is_top3segments = (ncolumns = VISIR_NUM_COLUMNS \<and> nlines = 1392
                             \<and> north_bound = VISIR_NUM_LINES)
      in \<not> is_full_disk (fh_mda fh) \<and> \<not> (is_rapid_scan \<and> is_top3segments))"

subsection \<open>Image boundaries (class ImageBoundaries)\<close>

text \<open>
  The dictionary with the four keys \<open>south_bound\<close>, \<open>north_bound\<close>, \<open>east_bound\<close> and
  \<open>west_bound\<close>, each holding a list of line or column numbers.
\<close>

record img_bounds =
  south_bound :: "int list"
  north_bound :: "int list"
  east_bound :: "int list"
  west_bound :: "int list"

datatype hrv_window = Lower | Upper

definition SouthLineActual :: "trailer \<Rightarrow> hrv_window \<Rightarrow> int" where
  "SouthLineActual t w = (case w of Lower \<Rightarrow> LowerSouthLineActual t | Upper \<Rightarrow> UpperSouthLineActual t)"

definition NorthLineActual :: "trailer \<Rightarrow> hrv_window \<Rightarrow> int" where
  "NorthLineActual t w = (case w of Lower \<Rightarrow> LowerNorthLineActual t | Upper \<Rightarrow> UpperNorthLineActual t)"

definition EastColumnActual :: "trailer \<Rightarrow> hrv_window \<Rightarrow> int" where
  "EastColumnActual t w = (case w of Lower \<Rightarrow> LowerEastColumnActual t | Upper \<Rightarrow> UpperEastColumnActual t)"

definition WestColumnActual :: "trailer \<Rightarrow> hrv_window \<Rightarrow> int" where
  "WestColumnActual t w = (case w of Lower \<Rightarrow> LowerWestColumnActual t | Upper \<Rightarrow> UpperWestColumnActual t)"

text \<open>The loop over the two windows, left by \<open>break\<close> after the first when not full disk.\<close>

fun hrv_actual_loop :: "file_handler \<Rightarrow> hrv_window list \<Rightarrow> img_bounds \<Rightarrow> img_bounds" where
  "hrv_actual_loop fh [] b = b"
| "hrv_actual_loop fh (w # ws) b =
     (let b' = \<lparr>south_bound = south_bound b @ [SouthLineActual (fh_trailer fh) w],
                north_bound = north_bound b @ [NorthLineActual (fh_trailer fh) w],
                east_bound = east_bound b @ [EastColumnActual (fh_trailer fh) w],
                west_bound = west_bound b @ [WestColumnActual (fh_trailer fh) w]\<rparr>
      in if \<not> is_full_disk (fh_mda fh) then b' else hrv_actual_loop fh ws b')"

definition get_hrv_actual_img_bounds :: "file_handler \<Rightarrow> img_bounds" where
  "get_hrv_actual_img_bounds fh =
     hrv_actual_loop fh [Lower, Upper]
       \<lparr>south_bound = [], north_bound = [], east_bound = [], west_bound = []\<rparr>"

definition get_hrv_img_shape :: "file_handler \<Rightarrow> int \<times> int" where
  "get_hrv_img_shape fh =
     (hrv_number_of_lines (fh_mda fh), hrv_number_of_columns (fh_mda fh))"

definition get_visir_img_shape :: "file_handler \<Rightarrow> int \<times> int" where
  "get_visir_img_shape fh = (number_of_lines (fh_mda fh), number_of_columns (fh_mda fh))"

definition convert_visir_bound_to_hrv :: "int \<Rightarrow> int" where
  "convert_visir_bound_to_hrv bound = 3 * bound - 2"

definition get_selected_img_bounds :: "file_handler \<Rightarrow> dataset_id \<Rightarrow> img_bounds" where
  "get_selected_img_bounds fh did =
     (let south0 = SouthLineSelectedRectangle (fh_header fh);
          east0 = EastColumnSelectedRectangle (fh_header fh);
          (shape, south, east) =
             (if name did = ''HRV''
              then (get_hrv_img_shape fh, convert_visir_bound_to_hrv south0,
                    convert_visir_bound_to_hrv east0)
              else (get_visir_img_shape fh, south0, east0));
          (nlines, ncolumns) = shape;
          north = south + nlines - 1;
          west = east + ncolumns - 1
      in \<lparr>south_bound = [south], north_bound = [north],
           east_bound = [east], west_bound = [west]\<rparr>)"

text \<open>
  \<open>_check_for_valid_bounds\<close>: the lengths of the four values, the size of their set
  (\<open>remdups\<close> keeps one copy of each length) and their minimum.
\<close>

definition check_for_valid_bounds :: "img_bounds \<Rightarrow> error + unit" where
  "check_for_valid_bounds b =
     (let len_img_bounds = [length (south_bound b), length (north_bound b),
                            length (east_bound b), length (west_bound b)];
          same_lengths = (length (remdups len_img_bounds) = 1);
          no_empty = (Min (set len_img_bounds) > 0)
      in if \<not> (same_lengths \<and> no_empty) then Inl ValueError else Inr ())"

definition get_img_bounds :: "file_handler \<Rightarrow> dataset_id \<Rightarrow> bool \<Rightarrow> error + img_bounds" where
  "get_img_bounds fh did roi =
     (let b = (if name did = ''HRV'' \<and> \<not> roi then get_hrv_actual_img_bounds fh
               else get_selected_img_bounds fh did)
      in case check_for_valid_bounds b of Inl e \<Rightarrow> Inl e | Inr _ \<Rightarrow> Inr b)"

subsection \<open>Area extent\<close>

definition calculate_area_extent ::
  "real \<Rightarrow> int \<Rightarrow> int \<Rightarrow> int \<Rightarrow> int \<Rightarrow> real \<Rightarrow> real \<Rightarrow> real \<Rightarrow> real
    \<Rightarrow> real \<times> real \<times> real \<times> real" where
  "calculate_area_extent center_point north east south west
                         we_offset ns_offset column_step line_step =
     (let ll_c = (center_point - of_int east + 0.5 + we_offset) * column_step;
          ll_l = (of_int north - center_point + 0.5 + ns_offset) * line_step;
          ur_c = (center_point - of_int west - 0.5 + we_offset) * column_step;
          ur_l = (of_int south - center_point - 0.5 + ns_offset) * line_step
      in (ll_c, ll_l, ur_c, ur_l))"

text \<open>
  The first step of \<open>get_area_extent\<close>: the north-south and west-east offsets of the
  earth model, returned as \<open>(ns_offset, we_offset)\<close>.
\<close>

definition earth_model_offsets :: "int \<Rightarrow> dataset_id \<Rightarrow> error + (real \<times> real)" where
  "earth_model_offsets earth_model did =
     (if earth_model = 2 then Inr (0, 0)
      else if earth_model = 1 then
        (if name did = ''HRV'' then Inr (- 1.5, 1.5) else Inr (- 0.5, 0.5))
      else Inl NotImplementedError)"

text \<open>The second step: the settings of the reference grid of the channel.\<close>

record grid_settings =
  grid_origin :: int
  center_point :: real
  column_step :: real
  line_step :: real
  nlines_fulldisk :: int
  ncolumns_fulldisk :: int

definition grid_settings_of :: "header \<Rightarrow> dataset_id \<Rightarrow> grid_settings" where
  "grid_settings_of h did =
     (if name did = ''HRV'' then
        \<lparr>grid_origin = GridOrigin (ReferenceGridHRV h),
         center_point = (of_int HRV_NUM_COLUMNS / 2) - 2,
         column_step = ColumnDirGridStep (ReferenceGridHRV h) * 1000,
         line_step = LineDirGridStep (ReferenceGridHRV h) * 1000,
         nlines_fulldisk = HRV_NUM_LINES,
         ncolumns_fulldisk = HRV_NUM_COLUMNS\<rparr>
      else
        \<lparr>grid_origin = GridOrigin (ReferenceGridVIS_IR h),
         center_point = of_int VISIR_NUM_COLUMNS / 2,
         column_step = ColumnDirGridStep (ReferenceGridVIS_IR h) * 1000,
         line_step = LineDirGridStep (ReferenceGridVIS_IR h) * 1000,
         nlines_fulldisk = VISIR_NUM_LINES,
         ncolumns_fulldisk = VISIR_NUM_COLUMNS\<rparr>)"

text \<open>
  The grid origin must be 2 (south-east). The message of the error looks the origin up
  in a table of the four corners, so an origin outside 0..3 raises KeyError instead.
\<close>

definition check_grid_origin :: "int \<Rightarrow> error + unit" where
  "check_grid_origin origin =
     (if origin \<noteq> 2 then
        (if origin \<in> {0, 1, 2, 3} then Inl NotImplementedError else Inl KeyError)
      else Inr ())"

record aex_data =
  area_extent :: "(real \<times> real \<times> real \<times> real) list"
  nlines :: "int list"
  ncolumns :: "int list"

text \<open>The body of the loop over the zipped boundaries, for one boundary tuple.\<close>

definition area_extent_of_bound ::
  "file_handler \<Rightarrow> grid_settings \<Rightarrow> real \<Rightarrow> real \<Rightarrow> int \<times> int \<times> int \<times> int
    \<Rightarrow> (real \<times> real \<times> real \<times> real) \<times> int \<times> int" where
  "area_extent_of_bound fh g we_offset ns_offset bound =
     (let (south0, north0, east0, west0) = bound;
          (east1, west1) = (if fill_disk fh then (1, ncolumns_fulldisk g) else (east0, west0));
          (south1, north1) = (if fill_disk fh \<and> \<not> is_full_disk (fh_mda fh)
                              then (1, nlines_fulldisk g) else (south0, north0));
          nl = north1 - south1 + 1;
          nc = west1 - east1 + 1;
          aex = calculate_area_extent (center_point g) north1 east1 south1 west1
                  we_offset ns_offset (column_step g) (line_step g)
      in (aex, nl, nc))"

definition zip_bounds :: "img_bounds \<Rightarrow> (int \<times> int \<times> int \<times> int) list" where
  "zip_bounds b = zip (south_bound b) (zip (north_bound b) (zip (east_bound b) (west_bound b)))"

definition get_area_extent :: "file_handler \<Rightarrow> dataset_id \<Rightarrow> error + aex_data" where
  "get_area_extent fh did =
     (case earth_model_offsets (TypeOfEarthModel (fh_header fh)) did of
        Inl e \<Rightarrow> Inl e
      | Inr (ns_offset, we_offset) \<Rightarrow>
     (let g = grid_settings_of (fh_header fh) did in
      case check_grid_origin (grid_origin g) of
        Inl e \<Rightarrow> Inl e
      | Inr _ \<Rightarrow>
     (case get_img_bounds fh did (is_roi fh) of
        Inl e \<Rightarrow> Inl e
      | Inr b \<Rightarrow>
     (let rs = map (area_extent_of_bound fh g we_offset ns_offset) (zip_bounds b)
      in Inr \<lparr>area_extent = map fst rs,
              nlines = map (fst \<circ> snd) rs,
              ncolumns = map (snd \<circ> snd) rs\<rparr>))))"

subsection \<open>Calibration\<close>

text \<open>A raster of samples; \<open>None\<close> is the not-a-number marker.\<close>

type_synonym raster = "real option list list"

text \<open>\<open>list.index\<close>: the position of the first occurrence, or ValueError.\<close>

fun index_of :: "'a list \<Rightarrow> 'a \<Rightarrow> nat option" where
  "index_of [] x = None"
| "index_of (y # ys) x = (if y = x then Some 0 else map_option Suc (index_of ys x))"

text \<open>Reading position \<open>i\<close> of an array of the header; out of range is IndexError.\<close>

definition getitem :: "'a list \<Rightarrow> nat \<Rightarrow> error + 'a" where
  "getitem xs i = (if i < length xs then Inr (xs ! i) else Inl IndexError)"

text \<open>
  \<open>str.upper\<close> on 8-bit characters: the letters a to z are moved to A to Z, every other
  character is left as it is.
\<close>

definition upper_char :: "char \<Rightarrow> char" where
  "upper_char c =
     (if (97::nat) \<le> of_char c \<and> of_char c \<le> (122::nat)
      then char_of (of_char c - (32::nat)) else c)"

definition upper :: "string \<Rightarrow> string" where
  "upper s = map upper_char s"

text \<open>
  Modelled from the spec: \<open>_convert_to_radiance\<close>, \<open>_vis_calibrate\<close> and \<open>_ir_calibrate\<close> are
  inherited from SEVIRICalibrationHandler in seviri\_base, which is not part of the
  sources. The spec gives \<open>radiance = counts * gain + offset\<close>,
  \<open>reflectance = f(radiance, solar_irradiance)\<close> and
  \<open>brightness_temperature = g(radiance, channel, conversion-type)\<close>, applied sample by
  sample, with no-data samples staying no-data; \<open>f\<close> and \<open>g\<close> are parameters.
\<close>

definition convert_to_radiance :: "raster \<Rightarrow> real \<Rightarrow> real \<Rightarrow> raster" where
  "convert_to_radiance data gain offset =
     map (map (map_option (\<lambda>counts. counts * gain + offset))) data"

definition vis_calibrate :: "seviri_base \<Rightarrow> raster \<Rightarrow> real \<Rightarrow> raster" where
  "vis_calibrate env data solar_irradiance =
     map (map (map_option (\<lambda>radiance. reflectance_of env radiance solar_irradiance))) data"

definition ir_calibrate :: "seviri_base \<Rightarrow> raster \<Rightarrow> string \<Rightarrow> int \<Rightarrow> raster" where
  "ir_calibrate env data channel cal_type =
     map (map (map_option (\<lambda>radiance. brightness_temperature_of env radiance channel cal_type))) data"

text \<open>
  The choice of the calibration coefficients in \<open>calibrate\<close>: the check of the calibration
  mode, then the nominal or the GSICS pair \<open>(gain, offset)\<close> of channel index \<open>i\<close>.
\<close>

definition calibration_coefficients ::
  "seviri_base \<Rightarrow> file_handler \<Rightarrow> string \<Rightarrow> nat \<Rightarrow> error + (real \<times> real)" where
  "calibration_coefficients env fh channel i =
     (if upper (calib_mode fh) \<noteq> ''GSICS'' \<and> upper (calib_mode fh) \<noteq> ''NOMINAL''
      then Inl NotImplementedError
      else if upper (calib_mode fh) \<noteq> ''GSICS'' \<or> channel \<in> set (VIS_CHANNELS env) then
        (case getitem (CalSlope (fh_header fh)) i of
           Inl e \<Rightarrow> Inl e
         | Inr gain \<Rightarrow>
             (case getitem (CalOffset (fh_header fh)) i of
                Inl e \<Rightarrow> Inl e
              | Inr offset \<Rightarrow> Inr (gain, offset)))
      else
        (case getitem (GSICSCalCoeff (fh_header fh)) i of
           Inl e \<Rightarrow> Inl e
         | Inr gain \<Rightarrow>
             (case getitem (GSICSOffsetCount (fh_header fh)) i of
                Inl e \<Rightarrow> Inl e
              | Inr offset \<Rightarrow> Inr (gain, offset * gain))))"

text \<open>
  \<open>calibrate\<close>. The local variable \<open>res\<close> is bound only when the requested calibration is
  radiance, reflectance or brightness temperature: it is an option here, and reading it
  unbound raises UnboundLocalError.
\<close>

definition calibrate ::
  "seviri_base \<Rightarrow> file_handler \<Rightarrow> raster \<Rightarrow> dataset_id \<Rightarrow> error + raster" where
  "calibrate env fh data did =
     (let channel = name did in
      case index_of (map snd (CHANNEL_NAMES env)) channel of
        None \<Rightarrow> Inl ValueError
      | Some i \<Rightarrow>
          if calibration did = ''counts'' then Inr data
          else
            (case (if calibration did \<in> set [''radiance'', ''reflectance'',
                                              ''brightness_temperature'']
                   then (case calibration_coefficients env fh channel i of
                           Inl e \<Rightarrow> Inl e
                         | Inr (gain, offset) \<Rightarrow>
                             Inr (Some (convert_to_radiance data gain offset)))
                   else Inr None) of
               Inl e \<Rightarrow> Inl e
             | Inr res \<Rightarrow>
                 if calibration did = ''reflectance'' then
                   (case CALIB_F env (platform_id fh) channel of
                      None \<Rightarrow> Inl KeyError
                    | Some solar_irradiance \<Rightarrow>
                        (case res of
                           None \<Rightarrow> Inl UnboundLocalError
                         | Some r \<Rightarrow> Inr (vis_calibrate env r solar_irradiance)))
                 else if calibration did = ''brightness_temperature'' then
                   (case getitem (PlannedChanProcessing (fh_header fh)) i of
                      Inl e \<Rightarrow> Inl e
                    | Inr cal_type \<Rightarrow>
                        (case res of
                           None \<Rightarrow> Inl UnboundLocalError
                         | Some r \<Rightarrow> Inr (ir_calibrate env r channel cal_type)))
                 else
                   (case res of
                      None \<Rightarrow> Inl UnboundLocalError
                    | Some r \<Rightarrow> Inr r)))"

subsection \<open>Padding to full disk (class Padder)\<close>

text \<open>The slice \<open>xs[a:b]\<close> of Python, with negative positions counted from the end.\<close>

definition py_slice :: "'a list \<Rightarrow> int \<Rightarrow> int \<Rightarrow> 'a list" where
  "py_slice xs a b =
     (let n = int (length xs);
          lo = (if a < 0 then max (a + n) 0 else min a n);
          hi = (if b < 0 then max (b + n) 0 else min b n)
      in take (nat (hi - lo)) (drop (nat lo) xs))"

text \<open>
  Modelled from the spec: \<open>pad_data_horizontally\<close> and \<open>pad_data_vertically\<close> are imported
  from seviri\_base, which is not part of the sources. The spec pads the columns on both
  sides with the fill value up to the full-disk column count, the data placed at the
  columns \<open>[east_bound - 1 : west_bound]\<close>, and pads the rows below and above up to the
  full-disk line count, the data placed at the rows \<open>[south_bound - 1 : north_bound]\<close>.
\<close>

definition pad_data_horizontally :: "raster \<Rightarrow> int \<times> int \<Rightarrow> int \<Rightarrow> int \<Rightarrow> raster" where
  "pad_data_horizontally data final_size east west =
     map (\<lambda>row. replicate (nat (east - 1)) None @ row
                 @ replicate (nat (snd final_size - west)) None) data"

definition pad_data_vertically :: "raster \<Rightarrow> int \<times> int \<Rightarrow> int \<Rightarrow> int \<Rightarrow> raster" where
  "pad_data_vertically data final_size south north =
     replicate (nat (south - 1)) (replicate (nat (snd final_size)) None) @ data
       @ replicate (nat (fst final_size - north)) (replicate (nat (snd final_size)) None)"

record padder =
  padder_img_bounds :: img_bounds
  padder_is_full_disk :: bool
  final_shape :: "int \<times> int"

definition Padder :: "dataset_id \<Rightarrow> img_bounds \<Rightarrow> bool \<Rightarrow> padder" where
  "Padder did b full =
     \<lparr>padder_img_bounds = b, padder_is_full_disk = full,
      final_shape = (if name did = ''HRV'' then (HRV_NUM_LINES, HRV_NUM_COLUMNS)
                     else (VISIR_NUM_LINES, VISIR_NUM_COLUMNS))\<rparr>"

definition extract_data_to_pad :: "padder \<Rightarrow> raster \<Rightarrow> int \<Rightarrow> int \<Rightarrow> raster" where
  "extract_data_to_pad p dataset south north =
     (if padder_is_full_disk p then py_slice dataset (south - 1) north else dataset)"

text \<open>The body of the loop of \<open>pad_data\<close> for one boundary tuple.\<close>

definition pad_window :: "padder \<Rightarrow> raster \<Rightarrow> int \<times> int \<times> int \<times> int \<Rightarrow> raster" where
  "pad_window p dataset bound =
     (let (south, north, east, west) = bound;
          nl = north - south + 1;
          data = extract_data_to_pad p dataset south north
      in pad_data_horizontally data (nl, snd (final_shape p)) east west)"

text \<open>
  \<open>pad_data\<close>: the windows are padded and stacked; when the data is not full disk the
  stack is padded vertically with the bounds of the last window, and a loop that never
  ran leaves these two variables unbound.
\<close>

definition pad_data :: "padder \<Rightarrow> raster \<Rightarrow> error + raster" where
  "pad_data p dataset =
     (let bounds = zip_bounds (padder_img_bounds p);
          padded_data = concat (map (pad_window p dataset) bounds)
      in if \<not> padder_is_full_disk p then
           (case bounds of
              [] \<Rightarrow> Inl UnboundLocalError
            | _ # _ \<Rightarrow>
                (let (south, north, east, west) = last bounds
                 in Inr (pad_data_vertically padded_data (final_shape p) south north)))
         else Inr padded_data)"

subsection \<open>Reading a dataset\<close>

text \<open>\<open>where(data != 0)\<close>: a zero count becomes not-a-number, any other count a float.\<close>

definition where_nonzero :: "nat list list \<Rightarrow> raster" where
  "where_nonzero data = map (map (\<lambda>c. if c \<noteq> 0 then Some (real c) else None)) data"

text \<open>
  \<open>get_dataset\<close>; \<open>data\<close> is the raster of decoded counts that \<open>_get_visir_channel\<close> or
  \<open>_get_hrv_channel\<close> reads from the file for the channel. The attributes attached to the
  result are left out.
\<close>

definition get_dataset ::
  "seviri_base \<Rightarrow> file_handler \<Rightarrow> dataset_id \<Rightarrow> nat list list \<Rightarrow> error + raster" where
  "get_dataset env fh did data =
     (if name did \<notin> set (channel_list (fh_mda fh)) then Inl KeyError
      else
        (let xarr = where_nonzero data in
         case calibrate env fh xarr did of
           Inl e \<Rightarrow> Inl e
         | Inr dataset \<Rightarrow>
             if fill_disk fh \<and> \<not> (name did \<noteq> ''HRV'' \<and> is_full_disk (fh_mda fh)) then
               (case get_img_bounds fh did (is_roi fh) of
                  Inl e \<Rightarrow> Inl e
                | Inr b \<Rightarrow> pad_data (Padder did b (is_full_disk (fh_mda fh))) dataset)
             else Inr dataset))"

subsection \<open>The statements of the specification\<close>

text \<open>
  The four corners of the area extent in pixel units, as the specification writes them,
  before the multiplication by the step of the axis.
\<close>

definition spec_ll_col :: "real \<Rightarrow> int \<Rightarrow> real \<Rightarrow> real" where
  "spec_ll_col center east we_offset = center - of_int east + 0.5 + we_offset"

definition spec_ll_line :: "real \<Rightarrow> int \<Rightarrow> real \<Rightarrow> real" where
  "spec_ll_line center north ns_offset = of_int north - center + 0.5 + ns_offset"

definition spec_ur_col :: "real \<Rightarrow> int \<Rightarrow> real \<Rightarrow> real" where
  "spec_ur_col center west we_offset = center - of_int west - 0.5 + we_offset"

definition spec_ur_line :: "real \<Rightarrow> int \<Rightarrow> real \<Rightarrow> real" where
  "spec_ur_line center south ns_offset = of_int south - center - 0.5 + ns_offset"

text \<open>The invariant of the boundary lists: four lists of one length, which is not zero.\<close>

definition spec_valid_bounds :: "img_bounds \<Rightarrow> bool" where
  "spec_valid_bounds b \<longleftrightarrow>
     length (south_bound b) = length (north_bound b)
     \<and> length (north_bound b) = length (east_bound b)
     \<and> length (east_bound b) = length (west_bound b)
     \<and> length (south_bound b) \<noteq> 0"

text \<open>
  A raster \<open>cal\<close> has the shape of the raster of counts \<open>data\<close>, and is not-a-number
  wherever the count is zero.
\<close>

definition zeros_are_nan :: "nat list list \<Rightarrow> raster \<Rightarrow> bool" where
  "zeros_are_nan data cal \<longleftrightarrow>
     length cal = length data
     \<and> (\<forall>i < length data. length (cal ! i) = length (data ! i)
           \<and> (\<forall>j < length (data ! i). data ! i ! j = 0 \<longrightarrow> cal ! i ! j = None))"

text \<open>
  Every row of \<open>ds\<close> is a row of fill values, or a row of \<open>cal\<close> between two runs of fill
  values.
\<close>

definition padded_rows_of :: "raster \<Rightarrow> raster \<Rightarrow> bool" where
  "padded_rows_of cal ds \<longleftrightarrow>
     (\<forall>row \<in> set ds. (\<forall>x \<in> set row. x = None)
        \<or> (\<exists>i < length cal. \<exists>a c. row = replicate a None @ cal ! i @ replicate c None))"

subsection \<open>Example files\<close>

text \<open>
  The tables of seviri\_base for the examples: the twelve channel names, the four
  visible-band channels, one platform, and simple sample conversions.
\<close>

definition example_seviri_base :: seviri_base where
  "example_seviri_base =
     \<lparr>CHANNEL_NAMES = [(1, ''VIS006''), (2, ''VIS008''), (3, ''IR_016''), (4, ''IR_039''),
                       (5, ''WV_062''), (6, ''WV_073''), (7, ''IR_087''), (8, ''IR_097''),
                       (9, ''IR_108''), (10, ''IR_120''), (11, ''IR_134''), (12, ''HRV'')],
      VIS_CHANNELS = [''HRV'', ''VIS006'', ''VIS008'', ''IR_016''],
      SATNUM = (\<lambda>i. if i = 324 then Some ''11'' else None),
      CALIB_F = (\<lambda>p c. if p = 324 \<and> c = ''VIS006'' then Some 20 else None),
      reflectance_of = (\<lambda>radiance irradiance. 100 * radiance / irradiance),
      brightness_temperature_of = (\<lambda>radiance c t. radiance + 200)\<rparr>"

text \<open>A full-disk file: all twelve channels, the whole 3712 x 3712 rectangle.\<close>

definition fes_header :: header where
  "fes_header =
     \<lparr>SatelliteId = 324, TypeOfEarthModel = 2,
      EquatorialRadius = 6378, NorthPolarRadius = 6356, SouthPolarRadius = 6358,
      LongitudeOfSSP = 0,
      ReferenceGridHRV = \<lparr>GridOrigin = 2, ColumnDirGridStep = 1, LineDirGridStep = 1\<rparr>,
      ReferenceGridVIS_IR = \<lparr>GridOrigin = 2, ColumnDirGridStep = 3, LineDirGridStep = 3\<rparr>,
      PlannedChanProcessing = [0, 0, 0, 2, 2, 2, 2, 2, 2, 2, 2, 0],
      CalSlope = [2, 2, 2, 4, 4, 4, 4, 4, 4, 4, 4, 2],
      CalOffset = [- 1, - 1, - 1, - 3, - 3, - 3, - 3, - 3, - 3, - 3, - 3, - 1],
      GSICSCalCoeff = [0, 0, 0, 5, 5, 5, 5, 5, 5, 5, 5, 0],
      GSICSOffsetCount = [0, 0, 0, - 51, - 51, - 51, - 51, - 51, - 51, - 51, - 51, 0],
      SelectedBandIDs = ''XXXXXXXXXXXX'',
      NorthLineSelectedRectangle = 3712, EastColumnSelectedRectangle = 1,
      SouthLineSelectedRectangle = 1, WestColumnSelectedRectangle = 3712,
      NumberColumnsVISIR = 3712, NumberColumnsHRV = 11136,
      NumberLinesVISIR = 3712, NumberLinesHRV = 11136\<rparr>"

text \<open>A rapid-scan file: the 1392 northernmost lines of all columns.\<close>

definition rss_header :: header where
  "rss_header =
     fes_header\<lparr>SouthLineSelectedRectangle := 2321, NumberLinesVISIR := 1392,
                NumberLinesHRV := 4176\<rparr>"

text \<open>A region of interest: 1000 lines of 1000 columns, earth model 1.\<close>

definition roi_header :: header where
  "roi_header =
     fes_header\<lparr>TypeOfEarthModel := 1,
                NorthLineSelectedRectangle := 3000, EastColumnSelectedRectangle := 1001,
                SouthLineSelectedRectangle := 2001, WestColumnSelectedRectangle := 2000,
                NumberColumnsVISIR := 1000, NumberColumnsHRV := 3000,
                NumberLinesVISIR := 1000, NumberLinesHRV := 3000\<rparr>"

definition fes_trailer :: trailer where
  "fes_trailer =
     \<lparr>ReducedScan = 0,
      LowerSouthLineActual = 1, LowerNorthLineActual = 8256,
      LowerEastColumnActual = 2877, LowerWestColumnActual = 8444,
      UpperSouthLineActual = 8257, UpperNorthLineActual = 11136,
      UpperEastColumnActual = 1805, UpperWestColumnActual = 7372\<rparr>"

definition rss_trailer :: trailer where
  "rss_trailer =
     \<lparr>ReducedScan = 1,
      LowerSouthLineActual = 6961, LowerNorthLineActual = 11136,
      LowerEastColumnActual = 1805, LowerWestColumnActual = 7372,
      UpperSouthLineActual = 0, UpperNorthLineActual = 0,
      UpperEastColumnActual = 0, UpperWestColumnActual = 0\<rparr>"

definition roi_trailer :: trailer where
  "roi_trailer = rss_trailer\<lparr>ReducedScan := 0\<rparr>"

text \<open>The metadata that \<open>read_header\<close> derives from the three headers.\<close>

definition all_available :: "string \<Rightarrow> bool option" where
  "all_available =
     [''VIS006'' \<mapsto> True, ''VIS008'' \<mapsto> True, ''IR_016'' \<mapsto> True, ''IR_039'' \<mapsto> True,
      ''WV_062'' \<mapsto> True, ''WV_073'' \<mapsto> True, ''IR_087'' \<mapsto> True, ''IR_097'' \<mapsto> True,
      ''IR_108'' \<mapsto> True, ''IR_120'' \<mapsto> True, ''IR_134'' \<mapsto> True, ''HRV'' \<mapsto> True]"

definition fes_mda :: mda where
  "fes_mda =
     \<lparr>available_channels = all_available,
      channel_list = [''VIS006'', ''VIS008'', ''IR_016'', ''IR_039'', ''WV_062'', ''WV_073'',
                      ''IR_087'', ''IR_097'', ''IR_108'', ''IR_120'', ''IR_134'', ''HRV''],
      platform_name = ''Meteosat-11'',
      projection = \<lparr>proj_a = 6378000, proj_b = 6357000, proj_h = 35785831,
                    ssp_longitude = 0\<rparr>,
      is_full_disk = True,
      number_of_lines = 3712, number_of_columns = 3712,
      hrv_number_of_lines = 11136, hrv_number_of_columns = 5568\<rparr>"

definition rss_mda :: mda where
  "rss_mda = fes_mda\<lparr>is_full_disk := False, number_of_lines := 1392,
                     hrv_number_of_lines := 4176\<rparr>"

definition roi_mda :: mda where
  "roi_mda = fes_mda\<lparr>is_full_disk := False, number_of_lines := 1000,
                     number_of_columns := 1000, hrv_number_of_lines := 3000,
                     hrv_number_of_columns := 3000\<rparr>"

definition fes_file :: file_handler where
  "fes_file = \<lparr>fh_header = fes_header, fh_mda = fes_mda, fh_trailer = fes_trailer,
               platform_id = 324, calib_mode = ''nominal'', fill_disk = False\<rparr>"

definition rss_file :: file_handler where
  "rss_file = \<lparr>fh_header = rss_header, fh_mda = rss_mda, fh_trailer = rss_trailer,
               platform_id = 324, calib_mode = ''nominal'', fill_disk = False\<rparr>"

definition roi_file :: file_handler where
  "roi_file = \<lparr>fh_header = roi_header, fh_mda = roi_mda, fh_trailer = roi_trailer,
               platform_id = 324, calib_mode = ''nominal'', fill_disk = False\<rparr>"

text \<open>A full-disk file whose trailer has the reduced-scan flag set.\<close>

definition fes_flagged_file :: file_handler where
  "fes_flagged_file = fes_file\<lparr>fh_trailer := fes_trailer\<lparr>ReducedScan := 1\<rparr>\<rparr>"

text \<open>A small raster of decoded counts with two zero samples.\<close>

definition example_counts :: "nat list list" where
  "example_counts = [[0, 5], [7, 0]]"

section \<open>Properties\<close>

subsection \<open>The example files\<close>

lemma upt_12: "[0..<12] = [0, 1, 2, 3, 4, 5, 6, 7, 8, 9, 10, 11]"
  by (simp add: upt_rec)

lemma read_fes_header: "read_header example_seviri_base fes_header = Inr fes_mda"
  by (simp add: read_header_def example_seviri_base_def fes_header_def get_available_channels_def
      VISIR_NUM_LINES_def VISIR_NUM_COLUMNS_def int_half_def Let_def upt_12 fes_mda_def all_available_def)

lemma read_rss_header: "read_header example_seviri_base rss_header = Inr rss_mda"
  by (simp add: read_header_def example_seviri_base_def fes_header_def rss_header_def get_available_channels_def
      VISIR_NUM_LINES_def VISIR_NUM_COLUMNS_def int_half_def Let_def upt_12 fes_mda_def rss_mda_def all_available_def)

lemma read_roi_header: "read_header example_seviri_base roi_header = Inr roi_mda"
  by (simp add: read_header_def example_seviri_base_def fes_header_def roi_header_def get_available_channels_def
      VISIR_NUM_LINES_def VISIR_NUM_COLUMNS_def int_half_def Let_def upt_12 fes_mda_def roi_mda_def all_available_def)

lemma open_fes_file: "open_file example_seviri_base fes_header fes_trailer ''nominal'' False = Inr fes_file"
  by (simp add: open_file_def read_fes_header fes_file_def) (simp add: fes_header_def)

lemma open_rss_file: "open_file example_seviri_base rss_header rss_trailer ''nominal'' False = Inr rss_file"
  by (simp add: open_file_def read_rss_header rss_file_def) (simp add: rss_header_def fes_header_def)

lemma open_roi_file: "open_file example_seviri_base roi_header roi_trailer ''nominal'' False = Inr roi_file"
  by (simp add: open_file_def read_roi_header roi_file_def) (simp add: roi_header_def fes_header_def)

lemma open_fes_flagged_file:
  "open_file example_seviri_base fes_header (fes_trailer\<lparr>ReducedScan := 1\<rparr>) ''nominal'' False
     = Inr fes_flagged_file"
  by (simp add: open_file_def read_fes_header fes_flagged_file_def fes_file_def) (simp add: fes_header_def)

subsection \<open>Header, boundaries and area extent\<close>

lemma read_header_is_full_disk:
  assumes "read_header env h = Inr m"
  shows "is_full_disk m =
     (\<not> (NorthLineSelectedRectangle h - SouthLineSelectedRectangle h + 1 < VISIR_NUM_LINES
         \<or> WestColumnSelectedRectangle h - EastColumnSelectedRectangle h + 1 < VISIR_NUM_COLUMNS))"
  using assms unfolding read_header_def Let_def
  by (auto split: sum.splits option.splits)

lemma get_area_extent_Inr:
  assumes "get_area_extent fh did = Inr r"
  shows "\<exists>ns we b. earth_model_offsets (TypeOfEarthModel (fh_header fh)) did = Inr (ns, we)
           \<and> grid_origin (grid_settings_of (fh_header fh) did) = 2
           \<and> get_img_bounds fh did (is_roi fh) = Inr b
           \<and> area_extent r =
               map (\<lambda>bound. fst (area_extent_of_bound fh (grid_settings_of (fh_header fh) did)
                                  we ns bound)) (zip_bounds b)"
  using assms unfolding get_area_extent_def Let_def check_grid_origin_def
  by (auto split: sum.splits if_splits)

lemma area_extent_of_bound_no_fill:
  assumes "\<not> fill_disk fh"
  shows "fst (area_extent_of_bound fh g we ns (s, n, e, w)) =
     calculate_area_extent (center_point g) n e s w we ns (column_step g) (line_step g)"
  using assms by (simp add: area_extent_of_bound_def Let_def)

text \<open>
  Claim C1: for every boundary tuple (south, north, east, west), every center point (that
  is, every channel), every pair of earth-model offsets and every column and line step,
  the computed area extent is the tuple of the four pixel-unit formulas of the
  specification, each multiplied by the step of its axis.
\<close>
theorem calculate_area_extent_spec:
  "calculate_area_extent center north east south west we_offset ns_offset cstep lstep =
     (spec_ll_col center east we_offset * cstep,
      spec_ll_line center north ns_offset * lstep,
      spec_ur_col center west we_offset * cstep,
      spec_ur_line center south ns_offset * lstep)"
  by (simp add: calculate_area_extent_def Let_def spec_ll_col_def spec_ll_line_def
      spec_ur_col_def spec_ur_line_def)

text \<open>
  Claim C2: with \<open>ncolumns = west - east + 1\<close> and \<open>nrows = north - south + 1\<close> of the
  selected rectangle, the metadata flag \<open>is_full_disk\<close> is true if and only if both counts
  are at least 3712; it is true with both counts at 3712 and false when either count is
  3711.
\<close>
theorem is_full_disk_iff:
  assumes "read_header env h = Inr m"
  shows "(is_full_disk m \<longleftrightarrow>
            NorthLineSelectedRectangle h - SouthLineSelectedRectangle h + 1 \<ge> 3712
          \<and> WestColumnSelectedRectangle h - EastColumnSelectedRectangle h + 1 \<ge> 3712)
       \<and> (NorthLineSelectedRectangle h - SouthLineSelectedRectangle h + 1 = 3712
          \<and> WestColumnSelectedRectangle h - EastColumnSelectedRectangle h + 1 = 3712
          \<longrightarrow> is_full_disk m)
       \<and> (NorthLineSelectedRectangle h - SouthLineSelectedRectangle h + 1 = 3712 - 1
          \<or> WestColumnSelectedRectangle h - EastColumnSelectedRectangle h + 1 = 3712 - 1
          \<longrightarrow> \<not> is_full_disk m)"
  using read_header_is_full_disk [OF assms]
  by (auto simp add: VISIR_NUM_LINES_def VISIR_NUM_COLUMNS_def)

lemma read_fes_header_one_line_less:
  "\<exists>m. read_header example_seviri_base (fes_header\<lparr>SouthLineSelectedRectangle := 2\<rparr>) = Inr m"
  by (simp add: read_header_def example_seviri_base_def fes_header_def get_available_channels_def
      Let_def upt_12)

lemma read_fes_header_one_column_less:
  "\<exists>m. read_header example_seviri_base (fes_header\<lparr>EastColumnSelectedRectangle := 2\<rparr>) = Inr m"
  by (simp add: read_header_def example_seviri_base_def fes_header_def get_available_channels_def
      Let_def upt_12)

text \<open>
  The full-disk header gives a full-disk file; one line or one column less does not.
\<close>
theorem is_full_disk_iff_witness:
  "(\<exists>m. read_header example_seviri_base fes_header = Inr m \<and> is_full_disk m)
   \<and> (\<exists>m. read_header example_seviri_base (fes_header\<lparr>SouthLineSelectedRectangle := 2\<rparr>) = Inr m
          \<and> \<not> is_full_disk m)
   \<and> (\<exists>m. read_header example_seviri_base (fes_header\<lparr>EastColumnSelectedRectangle := 2\<rparr>) = Inr m
          \<and> \<not> is_full_disk m)"
proof (intro conjI)
  have "is_full_disk fes_mda"
    using is_full_disk_iff [OF read_fes_header] by (simp add: fes_header_def)
  then show "\<exists>m. read_header example_seviri_base fes_header = Inr m \<and> is_full_disk m"
    using read_fes_header by blast
next
  obtain m where m: "read_header example_seviri_base (fes_header\<lparr>SouthLineSelectedRectangle := 2\<rparr>) = Inr m"
    using read_fes_header_one_line_less by blast
  have "\<not> is_full_disk m"
    using is_full_disk_iff [OF m] by (simp add: fes_header_def)
  with m show "\<exists>m. read_header example_seviri_base (fes_header\<lparr>SouthLineSelectedRectangle := 2\<rparr>) = Inr m
          \<and> \<not> is_full_disk m" by blast
next
  obtain m where m: "read_header example_seviri_base (fes_header\<lparr>EastColumnSelectedRectangle := 2\<rparr>) = Inr m"
    using read_fes_header_one_column_less by blast
  have "\<not> is_full_disk m"
    using is_full_disk_iff [OF m] by (simp add: fes_header_def)
  with m show "\<exists>m. read_header example_seviri_base (fes_header\<lparr>EastColumnSelectedRectangle := 2\<rparr>) = Inr m
          \<and> \<not> is_full_disk m" by blast
qed

text \<open>
  Claim C3 as stated fails on a full-disk file. The file below is opened from a header
  with the whole rectangle and a trailer with the reduced-scan flag set: three of the
  four conditions hold, only the number of lines has changed from 1392 to 3712, and the
  file is not a region of interest, since it is full disk.
\<close>
theorem is_roi_full_disk_counterexample:
  "open_file example_seviri_base fes_header (fes_trailer\<lparr>ReducedScan := 1\<rparr>) ''nominal'' False
     = Inr fes_flagged_file
   \<and> ReducedScan (fh_trailer fes_flagged_file) \<noteq> 0
   \<and> number_of_columns (fh_mda fes_flagged_file) = 3712
   \<and> number_of_lines (fh_mda fes_flagged_file) = 3712
   \<and> NorthLineSelectedRectangle (fh_header fes_flagged_file) = 3712
   \<and> \<not> is_roi fes_flagged_file"
proof (intro conjI)
  show "open_file example_seviri_base fes_header (fes_trailer\<lparr>ReducedScan := 1\<rparr>) ''nominal'' False
     = Inr fes_flagged_file"
    by (rule open_fes_flagged_file)
qed (simp_all add: fes_flagged_file_def fes_file_def fes_trailer_def fes_mda_def fes_header_def
        is_roi_def)

text \<open>
  Claim C3, amended: \<open>is_roi\<close> is true if and only if the data is not full disk and not
  (reduced-scan flag set, 3712 columns, 1392 lines and north bound 3712). With the four
  conditions the file is not a region of interest; when the data is not full disk,
  changing any of the four conditions makes it a region of interest.
\<close>
theorem is_roi_iff:
  "(is_roi fh \<longleftrightarrow>
      \<not> is_full_disk (fh_mda fh)
      \<and> \<not> (ReducedScan (fh_trailer fh) \<noteq> 0
           \<and> number_of_columns (fh_mda fh) = 3712
           \<and> number_of_lines (fh_mda fh) = 1392
           \<and> NorthLineSelectedRectangle (fh_header fh) = 3712))
   \<and> (ReducedScan (fh_trailer fh) \<noteq> 0
       \<and> number_of_columns (fh_mda fh) = 3712
       \<and> number_of_lines (fh_mda fh) = 1392
       \<and> NorthLineSelectedRectangle (fh_header fh) = 3712 \<longrightarrow> \<not> is_roi fh)
   \<and> (\<not> is_full_disk (fh_mda fh)
       \<and> (ReducedScan (fh_trailer fh) = 0
          \<or> number_of_columns (fh_mda fh) \<noteq> 3712
          \<or> number_of_lines (fh_mda fh) \<noteq> 1392
          \<or> NorthLineSelectedRectangle (fh_header fh) \<noteq> 3712) \<longrightarrow> is_roi fh)"
  by (auto simp add: is_roi_def Let_def VISIR_NUM_COLUMNS_def VISIR_NUM_LINES_def)

theorem is_roi_iff_witness:
  "\<not> is_roi rss_file
   \<and> is_roi (rss_file\<lparr>fh_trailer := roi_trailer\<rparr>)
   \<and> is_roi (rss_file\<lparr>fh_mda := rss_mda\<lparr>number_of_columns := 3708\<rparr>\<rparr>)
   \<and> is_roi (rss_file\<lparr>fh_mda := rss_mda\<lparr>number_of_lines := 1391\<rparr>\<rparr>)
   \<and> is_roi (rss_file\<lparr>fh_header := rss_header\<lparr>NorthLineSelectedRectangle := 3711\<rparr>\<rparr>)
   \<and> is_roi roi_file"
  using is_roi_iff [of rss_file]
    is_roi_iff [of "rss_file\<lparr>fh_trailer := roi_trailer\<rparr>"]
    is_roi_iff [of "rss_file\<lparr>fh_mda := rss_mda\<lparr>number_of_columns := 3708\<rparr>\<rparr>"]
    is_roi_iff [of "rss_file\<lparr>fh_mda := rss_mda\<lparr>number_of_lines := 1391\<rparr>\<rparr>"]
    is_roi_iff [of "rss_file\<lparr>fh_header := rss_header\<lparr>NorthLineSelectedRectangle := 3711\<rparr>\<rparr>"]
    is_roi_iff [of roi_file]
  by (simp add: rss_file_def roi_file_def rss_mda_def roi_mda_def fes_mda_def rss_trailer_def
      roi_trailer_def rss_header_def roi_header_def fes_header_def)

text \<open>
  Claim C4: earth-model code 2 gives zero north-south and west-east offsets; code 1 gives
  \<open>ns_offset = -0.5\<close> and \<open>we_offset = 0.5\<close> for the channels other than HRV and
  \<open>ns_offset = -1.5\<close> and \<open>we_offset = 1.5\<close> for HRV (the pair is \<open>(ns_offset, we_offset)\<close>);
  every other code is an error, and \<open>get_area_extent\<close> aborts with it.
\<close>
theorem earth_model_offsets_cases:
  "earth_model_offsets 2 did = Inr (0, 0)
   \<and> (name did \<noteq> ''HRV'' \<longrightarrow> earth_model_offsets 1 did = Inr (- 0.5, 0.5))
   \<and> (name did = ''HRV'' \<longrightarrow> earth_model_offsets 1 did = Inr (- 1.5, 1.5))
   \<and> (em \<noteq> 1 \<and> em \<noteq> 2 \<longrightarrow> earth_model_offsets em did = Inl NotImplementedError)
   \<and> (TypeOfEarthModel (fh_header fh) \<noteq> 1 \<and> TypeOfEarthModel (fh_header fh) \<noteq> 2
        \<longrightarrow> get_area_extent fh did = Inl NotImplementedError)"
  by (simp add: earth_model_offsets_def get_area_extent_def)

theorem earth_model_offsets_cases_witness:
  "earth_model_offsets 2 \<lparr>name = ''IR_108'', calibration = ''radiance''\<rparr> = Inr (0, 0)
   \<and> earth_model_offsets 1 \<lparr>name = ''IR_108'', calibration = ''radiance''\<rparr> = Inr (- 0.5, 0.5)
   \<and> earth_model_offsets 1 \<lparr>name = ''HRV'', calibration = ''radiance''\<rparr> = Inr (- 1.5, 1.5)
   \<and> earth_model_offsets 3 \<lparr>name = ''HRV'', calibration = ''radiance''\<rparr> = Inl NotImplementedError
   \<and> get_area_extent (fes_file\<lparr>fh_header := fes_header\<lparr>TypeOfEarthModel := 0\<rparr>\<rparr>)
        \<lparr>name = ''IR_108'', calibration = ''radiance''\<rparr> = Inl NotImplementedError"
  using earth_model_offsets_cases [of "\<lparr>name = ''IR_108'', calibration = ''radiance''\<rparr>" 3
          "fes_file\<lparr>fh_header := fes_header\<lparr>TypeOfEarthModel := 0\<rparr>\<rparr>"]
    earth_model_offsets_cases [of "\<lparr>name = ''HRV'', calibration = ''radiance''\<rparr>" 3 fes_file]
  by simp

lemma remdups_four_singleton:
  "length (remdups [a, b, c, d :: nat]) = 1 \<longleftrightarrow> a = b \<and> b = c \<and> c = d"
  by (auto split: if_splits)

lemma Min_four_pos:
  "Min (set [a, b, c, d :: nat]) > 0 \<longleftrightarrow> a > 0 \<and> b > 0 \<and> c > 0 \<and> d > 0"
  by (auto simp add: min_def)

lemma check_for_valid_bounds_spec:
  "check_for_valid_bounds b = (if spec_valid_bounds b then Inr () else Inl ValueError)"
  unfolding check_for_valid_bounds_def Let_def remdups_four_singleton Min_four_pos
    spec_valid_bounds_def
  by auto

lemma hrv_actual_img_bounds_valid: "spec_valid_bounds (get_hrv_actual_img_bounds fh)"
  by (simp add: get_hrv_actual_img_bounds_def spec_valid_bounds_def Let_def)

lemma selected_img_bounds_valid: "spec_valid_bounds (get_selected_img_bounds fh did)"
  by (simp add: get_selected_img_bounds_def spec_valid_bounds_def Let_def
      get_hrv_img_shape_def get_visir_img_shape_def)

lemma get_img_bounds_total:
  "get_img_bounds fh did roi =
     Inr (if name did = ''HRV'' \<and> \<not> roi then get_hrv_actual_img_bounds fh
          else get_selected_img_bounds fh did)"
  by (simp add: get_img_bounds_def Let_def check_for_valid_bounds_spec
      hrv_actual_img_bounds_valid selected_img_bounds_valid)

text \<open>
  Claim C7: after the boundaries are resolved, the four boundary lists must have one
  length, which is not zero; \<open>_check_for_valid_bounds\<close> raises ValueError exactly when two
  lengths differ or a list is empty, and \<open>get_img_bounds\<close> then aborts with that error
  and otherwise returns the resolved boundaries unchanged.
\<close>
theorem valid_bounds_checked:
  "check_for_valid_bounds b = (if spec_valid_bounds b then Inr () else Inl ValueError)
   \<and> get_img_bounds fh did roi =
       (let resolved = (if name did = ''HRV'' \<and> \<not> roi then get_hrv_actual_img_bounds fh
                        else get_selected_img_bounds fh did)
        in if spec_valid_bounds resolved then Inr resolved else Inl ValueError)"
  by (simp add: get_img_bounds_def Let_def check_for_valid_bounds_spec)

theorem valid_bounds_checked_witness:
  "check_for_valid_bounds
      \<lparr>south_bound = [1, 8257], north_bound = [8256, 11136],
       east_bound = [2877, 1805], west_bound = [8444, 7372]\<rparr> = Inr ()
   \<and> check_for_valid_bounds
      \<lparr>south_bound = [1, 8257], north_bound = [8256],
       east_bound = [2877, 1805], west_bound = [8444, 7372]\<rparr> = Inl ValueError
   \<and> check_for_valid_bounds
      \<lparr>south_bound = [], north_bound = [], east_bound = [], west_bound = []\<rparr> = Inl ValueError
   \<and> get_img_bounds fes_file \<lparr>name = ''HRV'', calibration = ''counts''\<rparr> False =
       Inr \<lparr>south_bound = [1, 8257], north_bound = [8256, 11136],
            east_bound = [2877, 1805], west_bound = [8444, 7372]\<rparr>"
  using valid_bounds_checked [of "\<lparr>south_bound = [1, 8257], north_bound = [8256, 11136],
       east_bound = [2877, 1805], west_bound = [8444, 7372]\<rparr>" fes_file
       "\<lparr>name = ''HRV'', calibration = ''counts''\<rparr>" False]
    valid_bounds_checked [of "\<lparr>south_bound = [1, 8257], north_bound = [8256],
       east_bound = [2877, 1805], west_bound = [8444, 7372]\<rparr>" fes_file
       "\<lparr>name = ''HRV'', calibration = ''counts''\<rparr>" False]
    valid_bounds_checked [of "\<lparr>south_bound = [], north_bound = [], east_bound = [], west_bound = []\<rparr>"
       fes_file "\<lparr>name = ''HRV'', calibration = ''counts''\<rparr>" False]
  by (simp add: spec_valid_bounds_def get_hrv_actual_img_bounds_def fes_file_def fes_mda_def
      fes_trailer_def SouthLineActual_def NorthLineActual_def EastColumnActual_def
      WestColumnActual_def Let_def)

text \<open>
  Claim C9: for the HRV channel, the boundaries resolved from the selected rectangle of
  the header (the region-of-interest case) have south and east rescaled by
  \<open>3 * visir - 2\<close> from the south line and east column of the header, and north and west
  are \<open>south + hrv_number_of_lines - 1\<close> and \<open>east + hrv_number_of_columns - 1\<close>.
\<close>
theorem hrv_selected_img_bounds:
  assumes "name did = ''HRV''"
  shows "get_selected_img_bounds fh did =
           \<lparr>south_bound = [3 * SouthLineSelectedRectangle (fh_header fh) - 2],
            north_bound = [(3 * SouthLineSelectedRectangle (fh_header fh) - 2)
                            + hrv_number_of_lines (fh_mda fh) - 1],
            east_bound = [3 * EastColumnSelectedRectangle (fh_header fh) - 2],
            west_bound = [(3 * EastColumnSelectedRectangle (fh_header fh) - 2)
                            + hrv_number_of_columns (fh_mda fh) - 1]\<rparr>
         \<and> get_img_bounds fh did True = Inr (get_selected_img_bounds fh did)"
  using assms
  by (simp add: get_img_bounds_total)
     (simp add: get_selected_img_bounds_def Let_def get_hrv_img_shape_def
      convert_visir_bound_to_hrv_def)

theorem hrv_selected_img_bounds_witness:
  "name \<lparr>name = ''HRV'', calibration = ''counts''\<rparr> = ''HRV''
   \<and> is_roi roi_file
   \<and> get_img_bounds roi_file \<lparr>name = ''HRV'', calibration = ''counts''\<rparr> (is_roi roi_file) =
       Inr \<lparr>south_bound = [6001], north_bound = [9000],
            east_bound = [3001], west_bound = [6000]\<rparr>"
proof -
  have n: "name \<lparr>name = ''HRV'', calibration = ''counts''\<rparr> = ''HRV''" by simp
  have r: "is_roi roi_file"
    by (simp add: is_roi_def roi_file_def roi_mda_def fes_mda_def)
  show ?thesis
    using hrv_selected_img_bounds [OF n, of roi_file] r n
    by (simp add: roi_file_def roi_mda_def fes_mda_def roi_header_def fes_header_def)
qed

text \<open>
  Claim C10: the center point of the area-extent formula is half the full-disk column
  count for the channels other than HRV (3712 / 2 = 1856), and half the HRV full-disk
  column count minus two for HRV (11136 / 2 - 2 = 5566), whatever the header; it is half
  the full-disk column count of the grid only for the channels other than HRV.
\<close>
theorem center_point_asymmetric:
  "center_point (grid_settings_of h did) =
     (if name did = ''HRV'' then of_int HRV_NUM_COLUMNS / 2 - 2 else of_int VISIR_NUM_COLUMNS / 2)
   \<and> center_point (grid_settings_of h did) = (if name did = ''HRV'' then 5566 else 1856)
   \<and> (center_point (grid_settings_of h did) = of_int (ncolumns_fulldisk (grid_settings_of h did)) / 2
        \<longleftrightarrow> name did \<noteq> ''HRV'')"
  by (simp add: grid_settings_of_def HRV_NUM_COLUMNS_def VISIR_NUM_COLUMNS_def)

theorem center_point_asymmetric_witness:
  "center_point (grid_settings_of fes_header \<lparr>name = ''HRV'', calibration = ''counts''\<rparr>) = 5566
   \<and> center_point (grid_settings_of fes_header \<lparr>name = ''IR_108'', calibration = ''counts''\<rparr>) = 1856"
  using center_point_asymmetric [of fes_header "\<lparr>name = ''HRV'', calibration = ''counts''\<rparr>"]
    center_point_asymmetric [of fes_header "\<lparr>name = ''IR_108'', calibration = ''counts''\<rparr>"]
  by simp

text \<open>The area extent of a standard channel of the full-disk example file.\<close>
lemma get_area_extent_fes_visir:
  "get_area_extent fes_file \<lparr>name = ''IR_108'', calibration = ''counts''\<rparr> =
     Inr \<lparr>area_extent = [(5566500, 5569500, - 5569500, - 5566500)],
          nlines = [3712], ncolumns = [3712]\<rparr>"
  by (simp add: get_area_extent_def get_img_bounds_total earth_model_offsets_def
      grid_settings_of_def check_grid_origin_def zip_bounds_def area_extent_of_bound_def
      calculate_area_extent_def get_selected_img_bounds_def get_visir_img_shape_def
      fes_file_def fes_header_def fes_mda_def Let_def VISIR_NUM_COLUMNS_def VISIR_NUM_LINES_def)

subsection \<open>Calibration and datasets\<close>

lemma upper_examples:
  "upper ''gsics'' = ''GSICS''" "upper ''nominal'' = ''NOMINAL''"
  "upper ''GsIcS'' = ''GSICS''" "upper ''operational'' = ''OPERATIONAL''"
  by code_simp+


lemma index_of_None_iff: "index_of xs x = None \<longleftrightarrow> x \<notin> set xs"
  by (induction xs) auto

lemma index_of_less: "index_of xs x = Some i \<Longrightarrow> i < length xs \<and> xs ! i = x"
  by (induction xs arbitrary: i) (auto split: if_splits)

lemma calibration_coefficients_vis:
  assumes "channel \<in> set (VIS_CHANNELS env)"
    and "upper (calib_mode fh) = ''GSICS'' \<or> upper (calib_mode fh) = ''NOMINAL''"
  shows "calibration_coefficients env fh channel i =
     (case getitem (CalSlope (fh_header fh)) i of
        Inl e \<Rightarrow> Inl e
      | Inr gain \<Rightarrow>
          (case getitem (CalOffset (fh_header fh)) i of
             Inl e \<Rightarrow> Inl e
           | Inr offset \<Rightarrow> Inr (gain, offset)))"
  using assms by (auto simp add: calibration_coefficients_def)

text \<open>
  Claim C6: for every channel of the visible-band list and every input raster, calibrating
  with a calibration mode that reads GSICS gives the same result as calibrating with a
  mode that reads NOMINAL: the nominal slope and offset of the channel are used in both.
\<close>
theorem gsics_falls_back_to_nominal:
  assumes "name did \<in> set (VIS_CHANNELS env)"
    and "upper gsics = ''GSICS''" and "upper nominal = ''NOMINAL''"
  shows "calibration_coefficients env (fh\<lparr>calib_mode := gsics\<rparr>) (name did) i =
           calibration_coefficients env (fh\<lparr>calib_mode := nominal\<rparr>) (name did) i
       \<and> calibrate env (fh\<lparr>calib_mode := gsics\<rparr>) data did =
           calibrate env (fh\<lparr>calib_mode := nominal\<rparr>) data did"
proof -
  have c: "calibration_coefficients env (fh\<lparr>calib_mode := gsics\<rparr>) (name did) k =
           calibration_coefficients env (fh\<lparr>calib_mode := nominal\<rparr>) (name did) k" for k
    using assms by (simp add: calibration_coefficients_vis split: sum.splits)
  show ?thesis
    by (simp add: calibrate_def c Let_def cong: option.case_cong sum.case_cong if_cong)
qed

theorem gsics_falls_back_to_nominal_witness:
  "name \<lparr>name = ''VIS006'', calibration = ''reflectance''\<rparr> \<in> set (VIS_CHANNELS example_seviri_base)
   \<and> upper ''gsics'' = ''GSICS'' \<and> upper ''nominal'' = ''NOMINAL''
   \<and> calibrate example_seviri_base (fes_file\<lparr>calib_mode := ''gsics''\<rparr>)
        (where_nonzero example_counts) \<lparr>name = ''VIS006'', calibration = ''reflectance''\<rparr>
      = calibrate example_seviri_base (fes_file\<lparr>calib_mode := ''nominal''\<rparr>)
        (where_nonzero example_counts) \<lparr>name = ''VIS006'', calibration = ''reflectance''\<rparr>
   \<and> calibrate example_seviri_base (fes_file\<lparr>calib_mode := ''nominal''\<rparr>)
        (where_nonzero example_counts) \<lparr>name = ''VIS006'', calibration = ''reflectance''\<rparr>
      = Inr [[None, Some 45], [Some 65, None]]"
proof -
  have v: "name \<lparr>name = ''VIS006'', calibration = ''reflectance''\<rparr>
             \<in> set (VIS_CHANNELS example_seviri_base)"
    by (simp add: example_seviri_base_def)
  have n: "calibrate example_seviri_base (fes_file\<lparr>calib_mode := ''nominal''\<rparr>)
        (where_nonzero example_counts) \<lparr>name = ''VIS006'', calibration = ''reflectance''\<rparr>
      = Inr [[None, Some 45], [Some 65, None]]"
    by (simp add: calibrate_def calibration_coefficients_def upper_examples getitem_def
        example_seviri_base_def fes_file_def fes_header_def where_nonzero_def example_counts_def
        convert_to_radiance_def vis_calibrate_def Let_def)
  show ?thesis
    using gsics_falls_back_to_nominal [OF v upper_examples(1) upper_examples(2),
        of fes_file 0 "where_nonzero example_counts"] v n upper_examples(1) upper_examples(2)
    by simp
qed

text \<open>For an infrared channel of the example file the two modes give different radiances.\<close>
lemma gsics_differs_for_infrared:
  "calibrate example_seviri_base (fes_file\<lparr>calib_mode := ''gsics''\<rparr>)
        (where_nonzero example_counts) \<lparr>name = ''IR_108'', calibration = ''radiance''\<rparr>
      = Inr [[None, Some (- 230)], [Some (- 220), None]]"
  "calibrate example_seviri_base (fes_file\<lparr>calib_mode := ''nominal''\<rparr>)
        (where_nonzero example_counts) \<lparr>name = ''IR_108'', calibration = ''radiance''\<rparr>
      = Inr [[None, Some 17], [Some 25, None]]"
  by (simp_all add: calibrate_def calibration_coefficients_def upper_examples getitem_def
        example_seviri_base_def fes_file_def fes_header_def where_nonzero_def example_counts_def
        convert_to_radiance_def Let_def)

text \<open>
  Claim C8 as stated fails for a request of counts: with the calibration mode
  \<open>operational\<close>, which is neither nominal nor gsics, \<open>calibrate\<close> returns the data and
  raises nothing.
\<close>
theorem unknown_mode_counts_counterexample:
  "upper ''operational'' \<noteq> ''GSICS'' \<and> upper ''operational'' \<noteq> ''NOMINAL''
   \<and> calibrate example_seviri_base (fes_file\<lparr>calib_mode := ''operational''\<rparr>)
        (where_nonzero example_counts) \<lparr>name = ''VIS006'', calibration = ''counts''\<rparr>
      = Inr [[None, Some 5], [Some 7, None]]"
  by (simp add: calibrate_def upper_examples example_seviri_base_def where_nonzero_def
      example_counts_def)

text \<open>
  Claim C8, amended: with a calibration mode that is neither NOMINAL nor GSICS in upper
  case, every requested calibration other than counts aborts with an error, which is
  NotImplementedError for radiance, reflectance and brightness temperature on a channel of
  the name table; a request of counts for such a channel returns the data unchanged.
\<close>
theorem unknown_mode_is_error:
  assumes "upper (calib_mode fh) \<noteq> ''GSICS''" and "upper (calib_mode fh) \<noteq> ''NOMINAL''"
  shows "(calibration did \<noteq> ''counts'' \<longrightarrow>
            calibrate env fh data did =
              (if name did \<notin> set (map snd (CHANNEL_NAMES env)) then Inl ValueError
               else if calibration did \<in> set [''radiance'', ''reflectance'',
                                               ''brightness_temperature'']
                    then Inl NotImplementedError
               else Inl UnboundLocalError))
       \<and> (calibration did = ''counts'' \<longrightarrow>
            calibrate env fh data did =
              (if name did \<notin> set (map snd (CHANNEL_NAMES env)) then Inl ValueError
               else Inr data))"
proof (cases "index_of (map snd (CHANNEL_NAMES env)) (name did)")
  case None
  then have "name did \<notin> set (map snd (CHANNEL_NAMES env))"
    by (simp add: index_of_None_iff)
  with None show ?thesis
    by (simp add: calibrate_def Let_def)
next
  case (Some i)
  then have "name did \<in> set (map snd (CHANNEL_NAMES env))"
    using index_of_None_iff [of "map snd (CHANNEL_NAMES env)" "name did"] by auto
  with Some assms show ?thesis
    by (auto simp add: calibrate_def Let_def calibration_coefficients_def)
qed

theorem unknown_mode_is_error_witness:
  "upper (calib_mode (fes_file\<lparr>calib_mode := ''operational''\<rparr>)) \<noteq> ''GSICS''
   \<and> upper (calib_mode (fes_file\<lparr>calib_mode := ''operational''\<rparr>)) \<noteq> ''NOMINAL''
   \<and> calibrate example_seviri_base (fes_file\<lparr>calib_mode := ''operational''\<rparr>)
        (where_nonzero example_counts) \<lparr>name = ''VIS006'', calibration = ''reflectance''\<rparr>
      = Inl NotImplementedError
   \<and> calibrate example_seviri_base (fes_file\<lparr>calib_mode := ''operational''\<rparr>)
        (where_nonzero example_counts) \<lparr>name = ''VIS006'', calibration = ''counts''\<rparr>
      = Inr (where_nonzero example_counts)"
proof -
  have a: "upper (calib_mode (fes_file\<lparr>calib_mode := ''operational''\<rparr>)) \<noteq> ''GSICS''"
    and b: "upper (calib_mode (fes_file\<lparr>calib_mode := ''operational''\<rparr>)) \<noteq> ''NOMINAL''"
    by (simp_all add: upper_examples)
  show ?thesis
    using a b
      unknown_mode_is_error [OF a b, of "\<lparr>name = ''VIS006'', calibration = ''reflectance''\<rparr>"
        example_seviri_base "where_nonzero example_counts"]
      unknown_mode_is_error [OF a b, of "\<lparr>name = ''VIS006'', calibration = ''counts''\<rparr>"
        example_seviri_base "where_nonzero example_counts"]
    by (simp add: example_seviri_base_def)
qed



lemma where_nonzero_zeros: "zeros_are_nan data (where_nonzero data)"
  by (simp add: zeros_are_nan_def where_nonzero_def)

lemma calibrate_keeps_nan:
  assumes "calibrate env fh x did = Inr cal"
  shows "length cal = length x
       \<and> (\<forall>i < length x. length (cal ! i) = length (x ! i)
             \<and> (\<forall>j < length (x ! i). x ! i ! j = None \<longrightarrow> cal ! i ! j = None))"
  using assms unfolding calibrate_def Let_def
  by (auto simp add: convert_to_radiance_def vis_calibrate_def ir_calibrate_def
      split: option.splits sum.splits if_splits)

lemma calibrate_zeros:
  assumes "calibrate env fh (where_nonzero data) did = Inr cal"
  shows "zeros_are_nan data cal"
  using calibrate_keeps_nan [OF assms] where_nonzero_zeros [of data]
  by (simp add: zeros_are_nan_def)

lemma calibrate_counts:
  assumes "calibrate env fh x did = Inr cal" and "calibration did = ''counts''"
  shows "cal = x"
  using assms unfolding calibrate_def Let_def
  by (auto split: option.splits)

lemma set_py_slice: "set (py_slice xs a b) \<subseteq> set xs"
  unfolding py_slice_def Let_def
  by (meson set_take_subset set_drop_subset subset_trans)

lemma pad_window_rows:
  assumes "row \<in> set (pad_window p cal bound)"
  shows "\<exists>i < length cal. \<exists>a c. row = replicate a None @ cal ! i @ replicate c None"
proof -
  obtain s n e w where b: "bound = (s, n, e, w)"
    by (cases bound) auto
  from assms b obtain r where r: "r \<in> set (extract_data_to_pad p cal s n)"
    and row: "row = replicate (nat (e - 1)) None @ r
                      @ replicate (nat (snd (final_shape p) - w)) None"
    by (auto simp add: pad_window_def pad_data_horizontally_def Let_def)
  from r have "r \<in> set cal"
    using set_py_slice [of cal "s - 1" n]
    by (auto simp add: extract_data_to_pad_def split: if_splits)
  then obtain i where "i < length cal" "r = cal ! i"
    by (auto simp add: in_set_conv_nth)
  with row show ?thesis by blast
qed

lemma pad_data_rows:
  assumes "pad_data p cal = Inr ds"
  shows "padded_rows_of cal ds"
proof -
  let ?stack = "concat (map (pad_window p cal) (zip_bounds (padder_img_bounds p)))"
  have stack: "\<exists>i < length cal. \<exists>a c. row = replicate a None @ cal ! i @ replicate c None"
    if "row \<in> set ?stack" for row
    using that pad_window_rows by auto
  show ?thesis
  proof (cases "padder_is_full_disk p")
    case True
    with assms have "ds = ?stack"
      by (simp add: pad_data_def Let_def)
    with stack show ?thesis
      by (simp only: padded_rows_of_def) blast
  next
    case False
    with assms obtain s n where
      ds: "ds = pad_data_vertically ?stack (final_shape p) s n"
      by (auto simp add: pad_data_def Let_def split: list.splits prod.splits)
    have "(\<forall>x \<in> set row. x = None) \<or> row \<in> set ?stack" if "row \<in> set ds" for row
      using that unfolding ds pad_data_vertically_def by auto
    with stack show ?thesis
      by (simp only: padded_rows_of_def) blast
  qed
qed

text \<open>
  Claim C5: whenever \<open>get_dataset\<close> returns a dataset, for every channel and every requested
  calibration (counts included), the zero counts are replaced by not-a-number before
  \<open>calibrate\<close> is called, the calibrated raster is not-a-number at every position of a
  zero count, and the returned dataset is that raster, or, when the data is padded to
  full disk, its rows between fill values.
\<close>
theorem zero_counts_are_nan:
  assumes "get_dataset env fh did data = Inr ds"
  shows "\<exists>cal. calibrate env fh (where_nonzero data) did = Inr cal
           \<and> zeros_are_nan data (where_nonzero data)
           \<and> zeros_are_nan data cal
           \<and> (calibration did = ''counts'' \<longrightarrow> cal = where_nonzero data)
           \<and> (if fill_disk fh \<and> \<not> (name did \<noteq> ''HRV'' \<and> is_full_disk (fh_mda fh))
               then padded_rows_of cal ds else ds = cal)"
proof -
  from assms obtain cal where cal: "calibrate env fh (where_nonzero data) did = Inr cal"
    by (auto simp add: get_dataset_def Let_def split: if_splits sum.splits)
  have pad: "padded_rows_of cal ds"
    if "fill_disk fh \<and> \<not> (name did \<noteq> ''HRV'' \<and> is_full_disk (fh_mda fh))"
  proof -
    from assms cal that obtain b where
      "pad_data (Padder did b (is_full_disk (fh_mda fh))) cal = Inr ds"
      by (auto simp add: get_dataset_def Let_def split: if_splits sum.splits)
    then show ?thesis by (rule pad_data_rows)
  qed
  have same: "ds = cal"
    if "\<not> (fill_disk fh \<and> \<not> (name did \<noteq> ''HRV'' \<and> is_full_disk (fh_mda fh)))"
    using assms cal that
    by (auto simp add: get_dataset_def Let_def split: if_splits sum.splits)
  have counts: "calibration did = ''counts'' \<longrightarrow> cal = where_nonzero data"
    using calibrate_counts [OF cal] by simp
  from cal calibrate_zeros [OF cal] where_nonzero_zeros [of data] pad same counts
  show ?thesis by auto
qed

lemma get_dataset_fes_vis006:
  "get_dataset example_seviri_base fes_file
      \<lparr>name = ''VIS006'', calibration = ''reflectance''\<rparr> example_counts
     = Inr [[None, Some 45], [Some 65, None]]"
  by (simp add: get_dataset_def calibrate_def calibration_coefficients_def upper_examples
      getitem_def example_seviri_base_def fes_file_def fes_header_def fes_mda_def
      where_nonzero_def example_counts_def convert_to_radiance_def vis_calibrate_def Let_def)

lemma get_dataset_fes_counts:
  "get_dataset example_seviri_base fes_file
      \<lparr>name = ''IR_108'', calibration = ''counts''\<rparr> example_counts
     = Inr [[None, Some 5], [Some 7, None]]"
  by (simp add: get_dataset_def calibrate_def example_seviri_base_def fes_file_def fes_mda_def
      where_nonzero_def example_counts_def Let_def)

lemma get_dataset_rss_padded:
  "\<exists>ds. get_dataset example_seviri_base (rss_file\<lparr>fill_disk := True\<rparr>)
      \<lparr>name = ''IR_108'', calibration = ''counts''\<rparr> example_counts = Inr ds"
  by (simp add: get_dataset_def calibrate_def example_seviri_base_def rss_file_def rss_mda_def
      fes_mda_def get_img_bounds_total pad_data_def Padder_def zip_bounds_def
      get_selected_img_bounds_def get_visir_img_shape_def Let_def)

theorem zero_counts_are_nan_witness:
  "get_dataset example_seviri_base fes_file
      \<lparr>name = ''VIS006'', calibration = ''reflectance''\<rparr> example_counts
     = Inr [[None, Some 45], [Some 65, None]]
   \<and> zeros_are_nan example_counts [[None, Some 45], [Some 65, None]]
   \<and> get_dataset example_seviri_base fes_file
      \<lparr>name = ''IR_108'', calibration = ''counts''\<rparr> example_counts
     = Inr (where_nonzero example_counts)
   \<and> zeros_are_nan example_counts (where_nonzero example_counts)
   \<and> (\<exists>ds. get_dataset example_seviri_base (rss_file\<lparr>fill_disk := True\<rparr>)
          \<lparr>name = ''IR_108'', calibration = ''counts''\<rparr> example_counts = Inr ds
        \<and> padded_rows_of (where_nonzero example_counts) ds)"
proof -
  have f: "\<not> fill_disk fes_file" by (simp add: fes_file_def)
  from zero_counts_are_nan [OF get_dataset_fes_vis006] f
  have a: "zeros_are_nan example_counts [[None, Some 45], [Some 65, None]]"
    by auto
  have w: "where_nonzero example_counts = [[None, Some 5], [Some 7, None]]"
    by (simp add: where_nonzero_def example_counts_def)
  from zero_counts_are_nan [OF get_dataset_fes_counts] f
  have b: "zeros_are_nan example_counts (where_nonzero example_counts)"
    by auto
  obtain ds where ds: "get_dataset example_seviri_base (rss_file\<lparr>fill_disk := True\<rparr>)
      \<lparr>name = ''IR_108'', calibration = ''counts''\<rparr> example_counts = Inr ds"
    using get_dataset_rss_padded by blast
  have g: "fill_disk (rss_file\<lparr>fill_disk := True\<rparr>)
       \<and> \<not> is_full_disk (fh_mda (rss_file\<lparr>fill_disk := True\<rparr>))"
    by (simp add: rss_file_def rss_mda_def)
  from zero_counts_are_nan [OF ds] g
  have "padded_rows_of (where_nonzero example_counts) ds" by auto
  with ds have c: "\<exists>ds. get_dataset example_seviri_base (rss_file\<lparr>fill_disk := True\<rparr>)
          \<lparr>name = ''IR_108'', calibration = ''counts''\<rparr> example_counts = Inr ds
        \<and> padded_rows_of (where_nonzero example_counts) ds"
    by blast
  from a b c get_dataset_fes_vis006 get_dataset_fes_counts w show ?thesis by simp
qed

end
